theory Spec2Isabelle
  imports Main "HOL-Library.Word" "HOL-Library.Monad_Syntax"
begin

unbundle bit_operations_syntax

section \<open>The memory pool of GC.h\<close>

text \<open>
  The model follows \<^verbatim>\<open>GC.h\<close> (classes \<^verbatim>\<open>Allocator\<close> and \<^verbatim>\<open>GarbageCollector\<close>).

  \<^item> \<^verbatim>\<open>Size\<close>, \<^verbatim>\<open>Ref\<close> and every statistic are \<^verbatim>\<open>uint32_t\<close>: \<open>32 word\<close>, whose
    arithmetic wraps around as the unsigned arithmetic of C++ does.
  \<^item> \<^verbatim>\<open>std::vector<uint8_t> memory\<close> is a store \<open>nat \<Rightarrow> 8 word\<close> together with its
    size. A pointer into the pool is its offset from \<^verbatim>\<open>Root()\<close>, a \<open>nat\<close>; a pointer
    that may be \<^verbatim>\<open>nullptr\<close> is a \<open>nat option\<close>.
  \<^item> Every function that touches memory returns an \<open>option\<close>: \<open>None\<close> stands for an
    execution without a defined result, namely an access outside the vector, a
    dereferenced \<^verbatim>\<open>nullptr\<close>, a failing \<^verbatim>\<open>assert\<close>, or a loop that does not end.
  \<^item> A \<^verbatim>\<open>uint32_t\<close> in memory is four bytes, least significant byte first.
\<close>

type_synonym Size = "32 word"
type_synonym Ref = "32 word"
type_synonym byte = "8 word"

definition read32 :: "(nat \<Rightarrow> byte) \<Rightarrow> nat \<Rightarrow> Size" where
  "read32 m a =
     ucast (m a) OR push_bit 8 (ucast (m (a + 1))) OR
     push_bit 16 (ucast (m (a + 2))) OR push_bit 24 (ucast (m (a + 3)))"

definition write32 :: "(nat \<Rightarrow> byte) \<Rightarrow> nat \<Rightarrow> Size \<Rightarrow> (nat \<Rightarrow> byte)" where
  "write32 m a v =
     m(a := ucast v, a + 1 := ucast (drop_bit 8 v),
       a + 2 := ucast (drop_bit 16 v), a + 3 := ucast (drop_bit 24 v))"

record Allocator =
  memory :: "nat \<Rightarrow> byte"
  memory_size :: nat
  bins :: "Size list"
  finalPrevIsUsed :: bool
  freeBlocks :: "32 word"
  usedBlocks :: "32 word"
  freeMem :: "32 word"
  usedMem :: "32 word"
  merges :: "32 word"
  allocations :: "32 word"
  frees :: "32 word"
  fails :: "32 word"

text \<open>\<^verbatim>\<open>assert(c)\<close>: the execution stops when \<open>c\<close> fails.\<close>

definition assert :: "bool \<Rightarrow> unit option" where
  "assert c = (if c then Some () else None)"

text \<open>Reading and writing a \<^verbatim>\<open>uint32_t\<close> through a pointer into the pool.\<close>

definition load32 :: "'a Allocator_scheme \<Rightarrow> nat \<Rightarrow> Size option" where
  "load32 s a = (if a + 4 \<le> memory_size s then Some (read32 (memory s) a) else None)"

definition store32 :: "'a Allocator_scheme \<Rightarrow> nat \<Rightarrow> Size \<Rightarrow> 'a Allocator_scheme option" where
  "store32 s a v =
     (if a + 4 \<le> memory_size s then Some (s\<lparr>memory := write32 (memory s) a v\<rparr>) else None)"

subsection \<open>struct Chunk\<close>

text \<open>
  \<^verbatim>\<open>struct Chunk { Size size; Size nextOffset, prevOffset; }\<close>, packed: the size word
  is at offset 0 of the chunk, \<^verbatim>\<open>nextOffset\<close> at 4 and \<^verbatim>\<open>prevOffset\<close> at 8, so
  \<^verbatim>\<open>sizeof(Chunk)\<close> is 12.
\<close>

definition sizeMask :: Size where
  "sizeMask = (-1) XOR 1"

definition InvalidSize :: Size where
  "InvalidSize = -1"

definition GetSize :: "'a Allocator_scheme \<Rightarrow> nat \<Rightarrow> Size option" where
  "GetSize s chunk = do { w \<leftarrow> load32 s chunk; Some (w AND sizeMask) }"

definition IsPrevUsed :: "'a Allocator_scheme \<Rightarrow> nat \<Rightarrow> bool option" where
  "IsPrevUsed s chunk = do { w \<leftarrow> load32 s chunk; Some (w AND 1 = 1) }"

definition SetPrevUsed :: "'a Allocator_scheme \<Rightarrow> nat \<Rightarrow> bool \<Rightarrow> 'a Allocator_scheme option" where
  "SetPrevUsed s chunk prevUsed = do {
     w \<leftarrow> load32 s chunk;
     let w1 = w AND sizeMask;
     store32 s chunk (if prevUsed then w1 OR 1 else w1)
   }"

definition SetSize :: "'a Allocator_scheme \<Rightarrow> nat \<Rightarrow> Size \<Rightarrow> 'a Allocator_scheme option" where
  "SetSize s chunk sz = do {
     prevUsed \<leftarrow> IsPrevUsed s chunk;
     s1 \<leftarrow> store32 s chunk sz;
     SetPrevUsed s1 chunk prevUsed
   }"

definition nextOffset :: "'a Allocator_scheme \<Rightarrow> nat \<Rightarrow> Size option" where
  "nextOffset s chunk = load32 s (chunk + 4)"

definition prevOffset :: "'a Allocator_scheme \<Rightarrow> nat \<Rightarrow> Size option" where
  "prevOffset s chunk = load32 s (chunk + 8)"

definition set_nextOffset :: "'a Allocator_scheme \<Rightarrow> nat \<Rightarrow> Size \<Rightarrow> 'a Allocator_scheme option" where
  "set_nextOffset s chunk v = store32 s (chunk + 4) v"

definition set_prevOffset :: "'a Allocator_scheme \<Rightarrow> nat \<Rightarrow> Size \<Rightarrow> 'a Allocator_scheme option" where
  "set_prevOffset s chunk v = store32 s (chunk + 8) v"

subsection \<open>struct FreeChunkBins\<close>

definition BIN_INDICES :: nat where
  "BIN_INDICES = 17"

text \<open>
  \<^verbatim>\<open>GetIndex\<close> computes \<^verbatim>\<open>(bytesRequested - 1) / 2\<close> in \<^verbatim>\<open>uint32_t\<close> and returns it as
  an \<^verbatim>\<open>int\<close>; the quotient is below \<open>2 ^ 31\<close>, so the conversion keeps it.
\<close>

definition GetIndex :: "Size \<Rightarrow> nat" where
  "GetIndex bytesRequested =
     (if bytesRequested < 33 then unat ((bytesRequested - 1) div 2) else (33 - 1) div 2)"

text \<open>\<^verbatim>\<open>chunkBins.bins[i]\<close>, an array of \<^verbatim>\<open>BIN_INDICES\<close> entries.\<close>

definition get_bin :: "'a Allocator_scheme \<Rightarrow> nat \<Rightarrow> Size option" where
  "get_bin s i = (if i < length (bins s) then Some (bins s ! i) else None)"

definition set_bin :: "'a Allocator_scheme \<Rightarrow> nat \<Rightarrow> Size \<Rightarrow> 'a Allocator_scheme option" where
  "set_bin s i v = (if i < length (bins s) then Some (s\<lparr>bins := (bins s)[i := v]\<rparr>) else None)"

subsection \<open>Pointer helpers of Allocator\<close>

definition RoundUp :: "Size \<Rightarrow> Size" where
  "RoundUp sz = sz + (sz AND 1)"

text \<open>
  A \<^verbatim>\<open>size_t\<close> that an \<^verbatim>\<open>unsigned\<close> loop counter can reach: it survives the
  conversion to 32 bits, that is, it is below \<open>2 ^ 32\<close>.
\<close>

definition fits32 :: "nat \<Rightarrow> bool" where
  "fits32 n = (unat (of_nat n :: 32 word) = n)"

definition sizeof_Size :: Size where
  "sizeof_Size = 4"

definition sizeof_Chunk :: Size where
  "sizeof_Chunk = 12"

definition userDeltaBytes :: nat where
  "userDeltaBytes = 4"

definition minFreeSize :: Size where
  "minFreeSize = RoundUp (sizeof_Chunk + sizeof_Size)"

definition OffsetOf :: "nat \<Rightarrow> Size" where
  "OffsetOf chunk = of_nat chunk"

definition GetChunkAbsolute :: "Size \<Rightarrow> nat" where
  "GetChunkAbsolute offsetFromBase = unat offsetFromBase"

text \<open>
  \<^verbatim>\<open>PlaceChunkRelative(ptr, int32_t byteOffset)\<close>: the offset is read as a signed
  32-bit number; a pointer below the start of the pool has no defined meaning.
\<close>

definition PlaceChunkRelative :: "nat \<Rightarrow> Size \<Rightarrow> nat option" where
  "PlaceChunkRelative ptr byteOffset =
     (if 0 \<le> int ptr + sint byteOffset then Some (nat (int ptr + sint byteOffset)) else None)"

definition NextChunk :: "'a Allocator_scheme \<Rightarrow> nat option \<Rightarrow> nat option option" where
  "NextChunk s chunk =
     (case chunk of
        None \<Rightarrow> Some None
      | Some c \<Rightarrow> do {
          sz \<leftarrow> GetSize s c;
          let next = c + unat sz;
          if next \<ge> memory_size s then Some None else Some (Some next)
        })"

definition PrevSize :: "'a Allocator_scheme \<Rightarrow> nat \<Rightarrow> Size option" where
  "PrevSize s chunk = (if 4 \<le> chunk then load32 s (chunk - 4) else None)"

definition PrevChunk :: "'a Allocator_scheme \<Rightarrow> nat \<Rightarrow> nat option option" where
  "PrevChunk s cur = do {
     let offset = OffsetOf cur;
     pu \<leftarrow> IsPrevUsed s cur;
     if pu \<or> offset = 0 then Some None
     else do {
       prevSize \<leftarrow> PrevSize s cur;
       p \<leftarrow> PlaceChunkRelative cur (- prevSize);
       Some (Some p)
     }
   }"

definition WriteHeaderAndFooter ::
  "'a Allocator_scheme \<Rightarrow> nat \<Rightarrow> Size \<Rightarrow> bool \<Rightarrow> 'a Allocator_scheme option" where
  "WriteHeaderAndFooter s chunk sz isUsed = do {
     assert (sz \<ge> sizeof_Size);
     s1 \<leftarrow> SetSize s chunk sz;
     next \<leftarrow> NextChunk s1 (Some chunk);
     s2 \<leftarrow> (case next of
             Some n \<Rightarrow> SetPrevUsed s1 n isUsed
           | None \<Rightarrow> Some (s1\<lparr>finalPrevIsUsed := isUsed\<rparr>));
     if \<not> isUsed then do {
       sz1 \<leftarrow> GetSize s2 chunk;
       let dst = chunk + unat sz1 - 4;
       sz2 \<leftarrow> GetSize s2 chunk;
       store32 s2 dst sz2
     } else Some s2
   }"

definition IsNextUsed :: "'a Allocator_scheme \<Rightarrow> nat \<Rightarrow> bool option" where
  "IsNextUsed s chunk = do {
     next1 \<leftarrow> NextChunk s (Some chunk);
     case next1 of
       Some n1 \<Rightarrow> do {
         next2 \<leftarrow> NextChunk s next1;
         case next2 of
           Some n2 \<Rightarrow> IsPrevUsed s n2
         | None \<Rightarrow> Some (finalPrevIsUsed s)
       }
     | None \<Rightarrow> Some True
   }"

definition AllocationBytesUsed :: "'a Allocator_scheme \<Rightarrow> Size \<Rightarrow> 'a Allocator_scheme" where
  "AllocationBytesUsed s bytesUsed =
     (let d = (if 0 < sint bytesUsed then 1 else - 1) in
      s\<lparr>freeBlocks := freeBlocks s - d, usedBlocks := usedBlocks s + d,
        freeMem := freeMem s - bytesUsed, usedMem := usedMem s + bytesUsed\<rparr>)"

subsection \<open>The free lists\<close>

definition AddToFreeList :: "'a Allocator_scheme \<Rightarrow> nat \<Rightarrow> 'a Allocator_scheme option" where
  "AddToFreeList s chunk = do {
     let offset = OffsetOf chunk;
     sz \<leftarrow> GetSize s chunk;
     let binIndex = GetIndex sz;
     listIndex \<leftarrow> get_bin s binIndex;
     if listIndex = InvalidSize then do {
       s1 \<leftarrow> set_bin s binIndex offset;
       s2 \<leftarrow> set_nextOffset s1 chunk offset;
       set_prevOffset s2 chunk offset
     } else do {
       let listNode = GetChunkAbsolute listIndex;
       ln \<leftarrow> nextOffset s listNode;
       let nextNode = GetChunkAbsolute ln;
       s1 \<leftarrow> set_prevOffset s chunk listIndex;
       ln1 \<leftarrow> nextOffset s1 listNode;
       s2 \<leftarrow> set_nextOffset s1 chunk ln1;
       s3 \<leftarrow> set_prevOffset s2 nextNode offset;
       set_nextOffset s3 listNode offset
     }
   }"

definition RemoveFromFreeList :: "'a Allocator_scheme \<Rightarrow> nat \<Rightarrow> 'a Allocator_scheme option" where
  "RemoveFromFreeList s chunk = do {
     let offset = OffsetOf chunk;
     sz \<leftarrow> GetSize s chunk;
     let binIndex = GetIndex sz;
     b \<leftarrow> get_bin s binIndex;
     s1 \<leftarrow> (if b = offset then do {
              nx \<leftarrow> nextOffset s chunk;
              set_bin s binIndex (if nx = offset then InvalidSize else nx)
            } else Some s);
     nx1 \<leftarrow> nextOffset s1 chunk;
     pv1 \<leftarrow> prevOffset s1 chunk;
     s2 \<leftarrow> set_prevOffset s1 (GetChunkAbsolute nx1) pv1;
     pv2 \<leftarrow> prevOffset s2 chunk;
     nx2 \<leftarrow> nextOffset s2 chunk;
     set_nextOffset s2 (GetChunkAbsolute pv2) nx2
   }"

text \<open>
  The \<^verbatim>\<open>do ... while (cur != start)\<close> loop of \<^verbatim>\<open>GetFreeOfSize\<close> over one circular list.
  The first argument bounds the number of rounds; the caller passes the size of the pool,
  which no list of chunks inside the pool can exceed, so running out of it means that the
  walk never comes back to \<open>start\<close>.
\<close>

fun GetFreeOfSize_list ::
  "nat \<Rightarrow> 'a Allocator_scheme \<Rightarrow> nat \<Rightarrow> nat \<Rightarrow> Size \<Rightarrow> nat option option" where
  "GetFreeOfSize_list 0 s start cur bytesRequested = None"
| "GetFreeOfSize_list (Suc fuel) s start cur bytesRequested = do {
     sz \<leftarrow> GetSize s cur;
     if sz \<ge> bytesRequested then Some (Some cur)
     else do {
       nx \<leftarrow> nextOffset s cur;
       let cur1 = GetChunkAbsolute nx;
       if cur1 \<noteq> start then GetFreeOfSize_list fuel s start cur1 bytesRequested
       else Some None
     }
   }"

text \<open>The \<^verbatim>\<open>while (binIndex < BIN_INDICES)\<close> loop, over the bin indices still to visit.\<close>

fun GetFreeOfSize_bins :: "'a Allocator_scheme \<Rightarrow> nat list \<Rightarrow> Size \<Rightarrow> nat option option" where
  "GetFreeOfSize_bins s [] bytesRequested = Some None"
| "GetFreeOfSize_bins s (binIndex # rest) bytesRequested = do {
     offset \<leftarrow> get_bin s binIndex;
     if offset \<noteq> InvalidSize then do {
       let start = GetChunkAbsolute offset;
       r \<leftarrow> GetFreeOfSize_list (memory_size s) s start start bytesRequested;
       case r of
         Some cur \<Rightarrow> Some (Some cur)
       | None \<Rightarrow> GetFreeOfSize_bins s rest bytesRequested
     } else GetFreeOfSize_bins s rest bytesRequested
   }"

definition GetFreeOfSize :: "'a Allocator_scheme \<Rightarrow> Size \<Rightarrow> nat option option" where
  "GetFreeOfSize s bytesRequested =
     GetFreeOfSize_bins s [GetIndex bytesRequested ..< BIN_INDICES] bytesRequested"

subsection \<open>Allocator: construction, AllocPtr, FreePtr\<close>

definition Allocator_fields :: "Size \<Rightarrow> Allocator" where
  "Allocator_fields sizeInBytes =
     \<lparr>memory = (\<lambda>_. 0), memory_size = unat sizeInBytes,
      bins = replicate BIN_INDICES InvalidSize, finalPrevIsUsed = False,
      freeBlocks = 0, usedBlocks = 0, freeMem = 0, usedMem = 0, merges = 0,
      allocations = 0, frees = 0, fails = 0\<rparr>"

definition Allocator_body :: "'a Allocator_scheme \<Rightarrow> Size \<Rightarrow> 'a Allocator_scheme option" where
  "Allocator_body s0 sizeInBytes = do {
     let root = GetChunkAbsolute 0;
     s1 \<leftarrow> WriteHeaderAndFooter s0 root (RoundUp (sizeInBytes - 1)) False;
     s2 \<leftarrow> set_prevOffset s1 root 0;
     s3 \<leftarrow> set_nextOffset s2 root 0;
     let s4 = s3\<lparr>freeBlocks := 1, freeMem := sizeInBytes\<rparr>;
     AddToFreeList s4 root
   }"

definition Allocator :: "Size \<Rightarrow> Allocator option" where
  "Allocator sizeInBytes = Allocator_body (Allocator_fields sizeInBytes) sizeInBytes"

definition AllocPtr ::
  "'a Allocator_scheme \<Rightarrow> Size \<Rightarrow> (nat option \<times> 'a Allocator_scheme) option" where
  "AllocPtr s byteSizeRequested = do {
     let bytesNeeded0 = RoundUp (byteSizeRequested + sizeof_Size);
     let bytesNeeded = (if bytesNeeded0 < minFreeSize then minFreeSize else bytesNeeded0);
     curFree \<leftarrow> GetFreeOfSize s bytesNeeded;
     case curFree of
       None \<Rightarrow> Some (None, s\<lparr>fails := fails s + 1\<rparr>)
     | Some cf \<Rightarrow> do {
         sz \<leftarrow> GetSize s cf;
         assert (sz \<ge> bytesNeeded);
         s1 \<leftarrow> RemoveFromFreeList s cf;
         let splitBlock = (sz \<ge> minFreeSize + bytesNeeded);
         let bytesUsed = (if splitBlock then bytesNeeded else sz);
         used \<leftarrow> PlaceChunkRelative cf (sz - bytesUsed);
         s2 \<leftarrow> WriteHeaderAndFooter s1 used bytesUsed True;
         let s3 = AllocationBytesUsed s2 bytesUsed;
         s4 \<leftarrow> (if splitBlock then do {
                  let s3a = s3\<lparr>freeBlocks := freeBlocks s3 + 1\<rparr>;
                  s3b \<leftarrow> WriteHeaderAndFooter s3a cf (sz - bytesUsed) False;
                  AddToFreeList s3b cf
                } else Some s3);
         let s5 = s4\<lparr>allocations := allocations s4 + 1\<rparr>;
         Some (Some (used + userDeltaBytes), s5)
       }
   }"

definition MergeSecondIntoFirst ::
  "'a Allocator_scheme \<Rightarrow> nat \<Rightarrow> nat \<Rightarrow> 'a Allocator_scheme option" where
  "MergeSecondIntoFirst s prev chunk = do {
     s1 \<leftarrow> RemoveFromFreeList s prev;
     s2 \<leftarrow> RemoveFromFreeList s1 chunk;
     psz \<leftarrow> GetSize s2 prev;
     csz \<leftarrow> GetSize s2 chunk;
     s3 \<leftarrow> WriteHeaderAndFooter s2 prev (psz + csz) False;
     s4 \<leftarrow> AddToFreeList s3 prev;
     Some (s4\<lparr>freeBlocks := freeBlocks s4 - 1, merges := merges s4 + 1\<rparr>)
   }"

text \<open>
  \<^verbatim>\<open>FreePtr(userData)\<close>. A merge is handed the pointers \<^verbatim>\<open>NextChunk(chunk)\<close> and
  \<^verbatim>\<open>PrevChunk(chunk)\<close>, which it dereferences: a \<^verbatim>\<open>nullptr\<close> there ends the execution.
\<close>

definition FreePtr :: "'a Allocator_scheme \<Rightarrow> nat option \<Rightarrow> 'a Allocator_scheme option" where
  "FreePtr s userData = do {
     assert (userData \<noteq> None);
     ud \<leftarrow> userData;
     chunk \<leftarrow> (if userDeltaBytes \<le> ud then Some (ud - userDeltaBytes) else None);
     sz \<leftarrow> GetSize s chunk;
     s1 \<leftarrow> WriteHeaderAndFooter s chunk sz False;
     s2 \<leftarrow> AddToFreeList s1 chunk;
     let s3 = AllocationBytesUsed s2 (- sz);
     nu \<leftarrow> IsNextUsed s3 chunk;
     s4 \<leftarrow> (if \<not> nu then do {
              nx \<leftarrow> NextChunk s3 (Some chunk);
              n \<leftarrow> nx;
              MergeSecondIntoFirst s3 chunk n
            } else Some s3);
     pu \<leftarrow> IsPrevUsed s4 chunk;
     s5 \<leftarrow> (if \<not> pu \<and> OffsetOf chunk \<noteq> 0 then do {
              pc \<leftarrow> PrevChunk s4 chunk;
              p \<leftarrow> pc;
              MergeSecondIntoFirst s4 p chunk
            } else Some s4);
     Some (s5\<lparr>frees := frees s5 + 1\<rparr>)
   }"

section \<open>GarbageCollector\<close>

text \<open>\<^verbatim>\<open>struct RefHolder { Size refCount; Size size; void* pointer; }\<close>\<close>

record RefHolder =
  refCount :: Size
  rsize :: Size
  pointer :: "nat option"

record GarbageCollector = Allocator +
  refs :: "RefHolder list"
  collections :: "32 word"
  swaps :: "32 word"
  bytesMoved :: "32 word"

definition InvalidRef :: Ref where
  "InvalidRef = -1"

definition GarbageCollector_fields :: "Size \<Rightarrow> GarbageCollector" where
  "GarbageCollector_fields bytesUsed =
     \<lparr>memory = (\<lambda>_. 0), memory_size = unat bytesUsed,
      bins = replicate BIN_INDICES InvalidSize, finalPrevIsUsed = False,
      freeBlocks = 0, usedBlocks = 0, freeMem = 0, usedMem = 0, merges = 0,
      allocations = 0, frees = 0, fails = 0,
      refs = [], collections = 0, swaps = 0, bytesMoved = 0\<rparr>"

definition GarbageCollector :: "Size \<Rightarrow> GarbageCollector option" where
  "GarbageCollector bytesUsed = do {
     s \<leftarrow> Allocator_body (GarbageCollector_fields bytesUsed) bytesUsed;
     Some (s\<lparr>refs := replicate 100 \<lparr>refCount = 0, rsize = 0, pointer = None\<rparr>\<rparr>)
   }"

text \<open>\<^verbatim>\<open>refs[ref]\<close>: an index outside the vector has no defined result.\<close>

definition get_ref :: "GarbageCollector \<Rightarrow> Ref \<Rightarrow> RefHolder option" where
  "get_ref s r = (if unat r < length (refs s) then Some (refs s ! unat r) else None)"

text \<open>
  The loop of \<^verbatim>\<open>GetFreeRef\<close> looks for the first slot whose \<^verbatim>\<open>size\<close> is 0. Its counter
  is an \<^verbatim>\<open>unsigned\<close>, compared with \<^verbatim>\<open>refs.size()\<close>: it can leave the loop only at an
  index below \<open>2 ^ 32\<close>; the loop of \<^verbatim>\<open>Compact\<close> over \<^verbatim>\<open>refs\<close> has the same counter.
\<close>

fun GetFreeRef_scan :: "RefHolder list \<Rightarrow> nat \<Rightarrow> nat option" where
  "GetFreeRef_scan [] i = None"
| "GetFreeRef_scan (r # rs) i = (if rsize r = 0 then Some i else GetFreeRef_scan rs (Suc i))"

definition GetFreeRef ::
  "GarbageCollector \<Rightarrow> nat option \<Rightarrow> Size \<Rightarrow> (Ref \<times> GarbageCollector) option" where
  "GetFreeRef s ptr requestedByteSize =
     (case GetFreeRef_scan (refs s) 0 of
        Some i \<Rightarrow>
          if fits32 i then
            Some (of_nat i,
                  s\<lparr>refs := (refs s)[i := (refs s ! i)\<lparr>rsize := requestedByteSize,
                                                       pointer := ptr, refCount := 1\<rparr>]\<rparr>)
          else None
      | None \<Rightarrow>
          if fits32 (length (refs s)) then
            let rh = \<lparr>refCount = 1, rsize = requestedByteSize, pointer = ptr\<rparr>;
                s1 = s\<lparr>refs := refs s @ [rh]\<rparr>
            in Some (of_nat (length (refs s1) - 1), s1)
          else None)"

definition AllocRef :: "GarbageCollector \<Rightarrow> Size \<Rightarrow> (Ref \<times> GarbageCollector) option" where
  "AllocRef s requestedByteSize = do {
     (ptr, s1) \<leftarrow> AllocPtr s requestedByteSize;
     if ptr = None then Some (InvalidRef, s1)
     else do {
       (ref, s2) \<leftarrow> GetFreeRef s1 ptr requestedByteSize;
       if ref = InvalidRef then do {
         s3 \<leftarrow> FreePtr s2 ptr;
         Some (ref, s3)
       } else Some (ref, s2)
     }
   }"

definition FreeRef :: "GarbageCollector \<Rightarrow> Ref \<Rightarrow> GarbageCollector option" where
  "FreeRef s ref = do {
     rh \<leftarrow> get_ref s ref;
     s1 \<leftarrow> FreePtr s (pointer rh);
     Some (s1\<lparr>refs := (refs s1)[unat ref :=
                 (refs s1 ! unat ref)\<lparr>pointer := None, rsize := 0, refCount := InvalidRef\<rparr>]\<rparr>)
   }"

definition IncrRef :: "GarbageCollector \<Rightarrow> Ref \<Rightarrow> GarbageCollector option" where
  "IncrRef s ref = do {
     rh \<leftarrow> get_ref s ref;
     Some (s\<lparr>refs := (refs s)[unat ref := rh\<lparr>refCount := refCount rh + 1\<rparr>]\<rparr>)
   }"

definition DecrRef :: "GarbageCollector \<Rightarrow> Ref \<Rightarrow> (bool \<times> GarbageCollector) option" where
  "DecrRef s ref = do {
     rh \<leftarrow> get_ref s ref;
     if refCount rh > 1 then
       Some (True, s\<lparr>refs := (refs s)[unat ref := rh\<lparr>refCount := refCount rh - 1\<rparr>]\<rparr>)
     else do {
       s1 \<leftarrow> FreeRef s ref;
       Some (False, s1)
     }
   }"

definition SizeFromRef :: "GarbageCollector \<Rightarrow> Ref \<Rightarrow> Size option" where
  "SizeFromRef s ref = do { rh \<leftarrow> get_ref s ref; Some (rsize rh) }"

definition PointerFromRef :: "GarbageCollector \<Rightarrow> Ref \<Rightarrow> nat option option" where
  "PointerFromRef s ref = do { rh \<leftarrow> get_ref s ref; Some (pointer rh) }"

definition RefCount :: "GarbageCollector \<Rightarrow> Ref \<Rightarrow> Size option" where
  "RefCount s ref = do { rh \<leftarrow> get_ref s ref; Some (refCount rh) }"

subsection \<open>Compact\<close>

definition IsSelfUsed :: "'a Allocator_scheme \<Rightarrow> nat option \<Rightarrow> bool option" where
  "IsSelfUsed s chunk = do {
     assert (chunk \<noteq> None);
     next \<leftarrow> NextChunk s chunk;
     case next of
       Some n \<Rightarrow> IsPrevUsed s n
     | None \<Rightarrow> Some (finalPrevIsUsed s)
   }"

text \<open>\<^verbatim>\<open>memmove(dst, src, n)\<close> inside the pool; the two ranges may overlap.\<close>

definition memmove :: "'a Allocator_scheme \<Rightarrow> nat \<Rightarrow> nat \<Rightarrow> nat \<Rightarrow> 'a Allocator_scheme option" where
  "memmove s dst src n =
     (if dst + n \<le> memory_size s \<and> src + n \<le> memory_size s then
        Some (s\<lparr>memory := (\<lambda>a. if dst \<le> a \<and> a < dst + n then memory s (a - dst + src)
                                else memory s a)\<rparr>)
      else None)"

text \<open>
  Step 1: the loop over \<^verbatim>\<open>refs\<close> that saves the first word of every block whose
  \<^verbatim>\<open>pointer\<close> is not null in \<^verbatim>\<open>backing\<close> and writes the index of the ref there.
\<close>

fun Compact_stamp ::
  "nat list \<Rightarrow> GarbageCollector \<Rightarrow> Size list \<Rightarrow> (GarbageCollector \<times> Size list) option" where
  "Compact_stamp [] s backing = Some (s, backing)"
| "Compact_stamp (i # rest) s backing =
     (case pointer (refs s ! i) of
        None \<Rightarrow> Compact_stamp rest s backing
      | Some p \<Rightarrow> do {
          v \<leftarrow> load32 s p;
          let backing1 = backing[i := v];
          s1 \<leftarrow> store32 s p (of_nat i);
          Compact_stamp rest s1 backing1
        })"

text \<open>
  The loops over the chunks in physical order take the size of the pool as a bound on
  their rounds: a walk that needs more rounds than the pool has bytes has met a chunk of
  size 0, where \<^verbatim>\<open>NextChunk\<close> stands still.

  Step 2: unlink every free chunk from its bin.
\<close>

fun Compact_detach :: "nat \<Rightarrow> GarbageCollector \<Rightarrow> nat \<Rightarrow> GarbageCollector option" where
  "Compact_detach 0 s cur = None"
| "Compact_detach (Suc fuel) s cur = do {
     u \<leftarrow> IsSelfUsed s (Some cur);
     s1 \<leftarrow> (if \<not> u then RemoveFromFreeList (s\<lparr>freeBlocks := freeBlocks s - 1\<rparr>) cur
            else Some s);
     nx \<leftarrow> NextChunk s1 (Some cur);
     case nx of
       None \<Rightarrow> Some s1
     | Some c \<Rightarrow> Compact_detach fuel s1 c
   }"

text \<open>Step 3: move every used chunk down to \<^verbatim>\<open>nextWrite\<close>.\<close>

fun Compact_slide ::
  "nat \<Rightarrow> GarbageCollector \<Rightarrow> nat \<Rightarrow> nat \<Rightarrow> Size \<Rightarrow> (GarbageCollector \<times> nat \<times> Size) option" where
  "Compact_slide 0 s cur nextWrite usedSize = None"
| "Compact_slide (Suc fuel) s cur nextWrite usedSize = do {
     nxt \<leftarrow> NextChunk s (Some cur);
     u \<leftarrow> IsSelfUsed s (Some cur);
     (s3, nextWrite1, usedSize1) \<leftarrow>
       (if u then do {
          sz \<leftarrow> GetSize s cur;
          s1 \<leftarrow> (if cur \<noteq> nextWrite then memmove s nextWrite cur (unat sz) else Some s);
          s2 \<leftarrow> WriteHeaderAndFooter s1 nextWrite sz True;
          Some (s2\<lparr>bytesMoved := bytesMoved s2 + sz, swaps := swaps s2 + 1\<rparr>,
                nextWrite + unat sz, usedSize + sz)
        } else Some (s, nextWrite, usedSize));
     case nxt of
       None \<Rightarrow> Some (s3, nextWrite1, usedSize1)
     | Some c \<Rightarrow> Compact_slide fuel s3 c nextWrite1 usedSize1
   }"

text \<open>Step 4: the one free chunk that is left, if any; the result is \<^verbatim>\<open>freeChunk\<close>.\<close>


definition Compact_tail ::
  "GarbageCollector \<Rightarrow> nat \<Rightarrow> Size \<Rightarrow> (GarbageCollector \<times> nat option) option" where
  "Compact_tail s nextWrite usedSize =
     (let freeSize = of_nat (memory_size s) - usedSize;
          s1 = s\<lparr>freeMem := freeSize\<rparr>
      in if freeSize > 0 then do {
           let s2 = s1\<lparr>freeBlocks := freeBlocks s1 + 1\<rparr>;
           assert (freeSize \<ge> sizeof_Chunk + sizeof_Size);
           let freeChunk = nextWrite;
           s3 \<leftarrow> WriteHeaderAndFooter s2 freeChunk freeSize False;
           s4 \<leftarrow> SetPrevUsed s3 freeChunk True;
           s5 \<leftarrow> AddToFreeList s4 freeChunk;
           Some (s5, Some freeChunk)
         } else Some (s1, None))"

text \<open>
  The loop \<^verbatim>\<open>do { cur->SetPrevUsed(true); cur = NextChunk(cur); } while (cur != freeChunk)\<close>.
\<close>

fun Compact_mark ::
  "nat \<Rightarrow> GarbageCollector \<Rightarrow> nat option \<Rightarrow> nat option \<Rightarrow> GarbageCollector option" where
  "Compact_mark 0 s cur freeChunk = None"
| "Compact_mark (Suc fuel) s cur freeChunk = do {
     c \<leftarrow> cur;
     s1 \<leftarrow> SetPrevUsed s c True;
     nx \<leftarrow> NextChunk s1 cur;
     if nx \<noteq> freeChunk then Compact_mark fuel s1 nx freeChunk else Some s1
   }"

text \<open>Step 5: read the index of the ref back from every used chunk and restore the word.\<close>

fun Compact_unstamp ::
  "nat \<Rightarrow> GarbageCollector \<Rightarrow> nat option \<Rightarrow> nat option \<Rightarrow> Size list \<Rightarrow> GarbageCollector option" where
  "Compact_unstamp 0 s cur freeChunk backing = None"
| "Compact_unstamp (Suc fuel) s cur freeChunk backing = do {
     u \<leftarrow> IsSelfUsed s cur;
     s2 \<leftarrow> (if u then do {
              c \<leftarrow> cur;
              let p = c + 4;
              index \<leftarrow> load32 s p;
              b \<leftarrow> (if unat index < length backing then Some (backing ! unat index) else None);
              s1 \<leftarrow> store32 s p b;
              if unat index < length (refs s1) then
                Some (s1\<lparr>refs := (refs s1)[unat index := (refs s1 ! unat index)\<lparr>pointer := Some p\<rparr>]\<rparr>)
              else None
            } else Some s);
     nx \<leftarrow> NextChunk s2 cur;
     if nx \<noteq> freeChunk then Compact_unstamp fuel s2 nx freeChunk backing else Some s2
   }"

definition Compact :: "GarbageCollector \<Rightarrow> GarbageCollector option" where
  "Compact s = do {
     _ \<leftarrow> (if fits32 (length (refs s)) then Some () else None);
     (s1, backing) \<leftarrow> Compact_stamp [0 ..< length (refs s)] s (replicate (length (refs s)) 0);
     s2 \<leftarrow> Compact_detach (memory_size s1) s1 (GetChunkAbsolute 0);
     (s3, nextWrite, usedSize) \<leftarrow>
        Compact_slide (memory_size s2) s2 (GetChunkAbsolute 0) (GetChunkAbsolute 0) 0;
     (s4, freeChunk) \<leftarrow> Compact_tail s3 nextWrite usedSize;
     s5 \<leftarrow> Compact_mark (memory_size s4) s4 (Some (GetChunkAbsolute 0)) freeChunk;
     s6 \<leftarrow> Compact_unstamp (memory_size s5) s5 (Some (GetChunkAbsolute 0)) freeChunk backing;
     Some (s6\<lparr>collections := collections s6 + 1\<rparr>)
   }"

section \<open>Notions used to state the properties\<close>

text \<open>
  The client of the collector reads and writes the bytes of a block through the pointer
  it gets from \<^verbatim>\<open>PointerFromRef\<close> (\<^verbatim>\<open>memptr[i] = v\<close> in the tester).
\<close>

definition store8 :: "'a Allocator_scheme \<Rightarrow> nat \<Rightarrow> byte \<Rightarrow> 'a Allocator_scheme option" where
  "store8 s a v = (if a < memory_size s then Some (s\<lparr>memory := (memory s)(a := v)\<rparr>) else None)"

definition load8 :: "'a Allocator_scheme \<Rightarrow> nat \<Rightarrow> byte option" where
  "load8 s a = (if a < memory_size s then Some (memory s a) else None)"

text \<open>
  The chunks of one bin: the nodes met from the head of the bin along \<^verbatim>\<open>nextOffset\<close>
  until the walk is back at the head (the walk of \<^verbatim>\<open>GetFreeOfSize\<close>, without its test).
\<close>

fun bin_walk :: "nat \<Rightarrow> 'a Allocator_scheme \<Rightarrow> nat \<Rightarrow> nat \<Rightarrow> nat list option" where
  "bin_walk 0 s start cur = None"
| "bin_walk (Suc fuel) s start cur = do {
     sz \<leftarrow> GetSize s cur;
     nx \<leftarrow> nextOffset s cur;
     let cur1 = GetChunkAbsolute nx;
     if cur1 \<noteq> start then do {
       rest \<leftarrow> bin_walk fuel s start cur1;
       Some (cur # rest)
     } else Some [cur]
   }"

definition bin_chunks :: "'a Allocator_scheme \<Rightarrow> nat \<Rightarrow> nat list option" where
  "bin_chunks s b = do {
     offset \<leftarrow> get_bin s b;
     if offset = InvalidSize then Some []
     else bin_walk (memory_size s) s (GetChunkAbsolute offset) (GetChunkAbsolute offset)
   }"

text \<open>
  The bins are well formed when every bin is either empty or a circular list inside the
  pool, and every chunk of bin \<open>b\<close> has a size whose \<^verbatim>\<open>GetIndex\<close> is \<open>b\<close>.
\<close>

definition bins_wf :: "'a Allocator_scheme \<Rightarrow> bool" where
  "bins_wf s = list_all (\<lambda>b.
     case bin_chunks s b of
       None \<Rightarrow> False
     | Some L \<Rightarrow> list_all (\<lambda>a. map_option GetIndex (GetSize s a) = Some b) L) [0 ..< BIN_INDICES]"

text \<open>No chunk of any bin has at least \<open>need\<close> bytes.\<close>

definition no_fit :: "'a Allocator_scheme \<Rightarrow> Size \<Rightarrow> bool" where
  "no_fit s need = list_all (\<lambda>b.
     case bin_chunks s b of
       None \<Rightarrow> True
     | Some L \<Rightarrow> list_all (\<lambda>a. case GetSize s a of None \<Rightarrow> True | Some sz \<Rightarrow> sz < need) L)
     [0 ..< BIN_INDICES]"

text \<open>The chunk size \<^verbatim>\<open>AllocPtr\<close> looks for: \<open>max (roundEven (n + W)) minFreeSize\<close>.\<close>

definition bytesNeeded_of :: "Size \<Rightarrow> Size" where
  "bytesNeeded_of n = max (RoundUp (n + sizeof_Size)) minFreeSize"






section \<open>Words in memory\<close>

lemma word32_bytes:
  fixes v :: "32 word"
  shows "ucast (ucast v :: 8 word) OR push_bit 8 (ucast (ucast (drop_bit 8 v) :: 8 word)) OR
     push_bit 16 (ucast (ucast (drop_bit 16 v) :: 8 word)) OR
     push_bit 24 (ucast (ucast (drop_bit 24 v) :: 8 word)) = v"
  apply (rule bit_word_eqI)
  apply (auto simp add: bit_simps)
  subgoal for n by (cases "24 \<le> n") auto
  done

lemma read32_write32_same [simp]: "read32 (write32 m a v) a = v"
  by (simp add: read32_def write32_def word32_bytes)

lemma read32_write32_other [simp]:
  "b + 4 \<le> a \<or> a + 4 \<le> b \<Longrightarrow> read32 (write32 m a v) b = read32 m b"
  by (auto simp add: read32_def write32_def)

lemma write32_apply_other: "x < a \<or> a + 4 \<le> x \<Longrightarrow> write32 m a v x = m x"
  by (auto simp add: write32_def)

lemma read32_zero [simp]: "read32 (\<lambda>_. 0) a = 0"
  by (simp add: read32_def)

lemma write32_read32_id: "write32 m a (read32 m a) = m"
  apply (rule ext)
  apply (simp add: write32_def read32_def)
  apply (intro conjI impI bit_word_eqI)
  apply (auto simp add: bit_simps dest: bit_imp_le_length)
  done

lemma read32_memmove_inside:
  assumes "dst \<le> b" and "b + 4 \<le> dst + n"
  shows "read32 (\<lambda>a. if dst \<le> a \<and> a < dst + n then m (a - dst + src) else m a) b =
         read32 m (b - dst + src)"
proof -
  have e: "b + k - dst + src = b - dst + src + k" for k using assms by arith
  have i: "k < 4 \<Longrightarrow> dst \<le> b + k \<and> b + k < dst + n" for k using assms by arith
  show ?thesis
    unfolding read32_def using i[of 1] i[of 2] i[of 3] i[of 0] e[of 1] e[of 2] e[of 3]
    by simp
qed

lemma read32_memmove_outside:
  "b + 4 \<le> dst \<or> dst + n \<le> b \<Longrightarrow>
   read32 (\<lambda>a. if dst \<le> a \<and> a < dst + n then m (a - dst + src) else m a) b = read32 m b"
  by (auto simp add: read32_def)


lemma minFreeSize_16: "minFreeSize = 16"
  by (simp add: minFreeSize_def RoundUp_def sizeof_Chunk_def sizeof_Size_def)

lemma even_word_facts:
  fixes P :: "32 word"
  assumes "P AND 1 = 0"
  shows "(P - 1) AND 1 = 1" and "P AND sizeMask = P" and "RoundUp (P - 1) = P"
proof -
  have ev: "even P" using assms(1) by (simp add: and_one_eq even_iff_mod_2_eq_zero)
  have "odd (P - 1)" using ev by simp
  then show a: "(P - 1) AND 1 = 1" by (simp only: and_one_eq odd_iff_mod_2_eq_one)
  show "P AND sizeMask = P" using ev unfolding sizeMask_def
    by (intro bit_word_eqI) (auto simp add: bit_simps even_bit_succ_iff bit_0)
  show "RoundUp (P - 1) = P" using a by (simp add: RoundUp_def)
qed

section \<open>Running the code on a given pool\<close>

text \<open>
  The definitions that the simplifier unfolds to run \<^verbatim>\<open>Allocator\<close>, \<^verbatim>\<open>AllocPtr\<close> and
  \<^verbatim>\<open>FreePtr\<close> on a pool too large for \<open>code_simp\<close>.
\<close>

lemmas exec_defs = Allocator_def Allocator_body_def Allocator_fields_def WriteHeaderAndFooter_def
  SetSize_def SetPrevUsed_def IsPrevUsed_def GetSize_def load32_def store32_def assert_def
  NextChunk_def set_prevOffset_def set_nextOffset_def nextOffset_def prevOffset_def
  AddToFreeList_def RemoveFromFreeList_def get_bin_def set_bin_def GetIndex_def RoundUp_def
  sizeof_Size_def sizeof_Chunk_def minFreeSize_def GetChunkAbsolute_def OffsetOf_def sizeMask_def
  InvalidSize_def BIN_INDICES_def AllocPtr_def GetFreeOfSize_def PlaceChunkRelative_def
  AllocationBytesUsed_def userDeltaBytes_def IsSelfUsed_def IsNextUsed_def FreePtr_def
  MergeSecondIntoFirst_def PrevChunk_def PrevSize_def

lemma GetFreeOfSize_list_unfold:
  "n \<noteq> 0 \<Longrightarrow> GetFreeOfSize_list n s start cur bytesRequested = do {
     sz \<leftarrow> GetSize s cur;
     if sz \<ge> bytesRequested then Some (Some cur)
     else do {
       nx \<leftarrow> nextOffset s cur;
       let cur1 = GetChunkAbsolute nx;
       if cur1 \<noteq> start then GetFreeOfSize_list (n - 1) s start cur1 bytesRequested
       else Some None
     }
   }"
  by (cases n) (simp_all add: Let_def cong: if_cong Option.bind_cong)

section \<open>What the allocator leaves alone\<close>

lemma store32_more: "store32 s a v = Some s' \<Longrightarrow> Allocator.more s' = Allocator.more s"
  by (auto simp add: store32_def split: if_splits)

lemma set_bin_more: "set_bin s i v = Some s' \<Longrightarrow> Allocator.more s' = Allocator.more s"
  by (auto simp add: set_bin_def split: if_splits)

lemma SetPrevUsed_more: "SetPrevUsed s c b = Some s' \<Longrightarrow> Allocator.more s' = Allocator.more s"
  by (auto simp add: SetPrevUsed_def Let_def split: bind_splits dest: store32_more)

lemma SetSize_more: "SetSize s c z = Some s' \<Longrightarrow> Allocator.more s' = Allocator.more s"
  by (auto simp add: SetSize_def split: bind_splits dest!: store32_more SetPrevUsed_more)

lemma WriteHeaderAndFooter_more:
  "WriteHeaderAndFooter s c z u = Some s' \<Longrightarrow> Allocator.more s' = Allocator.more s"
  by (auto simp add: WriteHeaderAndFooter_def Let_def split: bind_splits option.splits if_splits
      dest!: store32_more SetPrevUsed_more SetSize_more)

lemma AddToFreeList_more: "AddToFreeList s c = Some s' \<Longrightarrow> Allocator.more s' = Allocator.more s"
  by (auto simp add: AddToFreeList_def Let_def set_nextOffset_def set_prevOffset_def
      split: bind_splits option.splits if_splits
      dest!: store32_more set_bin_more)




lemma Allocator_body_more:
  "Allocator_body s n = Some s' \<Longrightarrow> Allocator.more s' = Allocator.more s"
  unfolding Allocator_body_def Let_def set_nextOffset_def set_prevOffset_def
  by (auto split: bind_splits dest!: WriteHeaderAndFooter_more AddToFreeList_more store32_more)


section \<open>The free lists seen by GetFreeOfSize\<close>

lemma GetFreeOfSize_list_walk:
  "bin_walk k s st cur = Some L \<Longrightarrow>
   GetFreeOfSize_list k s st cur req =
     Some (List.find (\<lambda>a. \<exists>sz. GetSize s a = Some sz \<and> req \<le> sz) L)"
proof (induction k arbitrary: cur L)
  case 0
  then show ?case by simp
next
  case (Suc k)
  then show ?case
    by (auto simp add: Let_def split: bind_splits if_splits)
qed

lemma bytesNeeded_of_alt:
  "(if RoundUp (n + sizeof_Size) < minFreeSize then minFreeSize else RoundUp (n + sizeof_Size)) =
   bytesNeeded_of n"
  by (auto simp add: bytesNeeded_of_def max_def)

lemma bytesNeeded_of_ge: "16 \<le> bytesNeeded_of n"
  by (simp add: bytesNeeded_of_def minFreeSize_16)

lemma AllocPtr_null_iff:
  "AllocPtr s n = Some (None, s') \<longleftrightarrow>
   GetFreeOfSize s (bytesNeeded_of n) = Some None \<and> s' = s\<lparr>fails := fails s + 1\<rparr>"
  unfolding AllocPtr_def Let_def bytesNeeded_of_alt
  by (auto split: bind_splits option.splits if_splits)

lemma GetFreeOfSize_bins_none:
  "(\<forall>b\<in>set bs. \<exists>L. bin_chunks s b = Some L \<and>
       (\<forall>a\<in>set L. \<forall>sz. GetSize s a = Some sz \<longrightarrow> sz < req))
   \<Longrightarrow> GetFreeOfSize_bins s bs req = Some None"
proof (induction bs)
  case Nil
  then show ?case by simp
next
  case (Cons b bs)
  then obtain L where L: "bin_chunks s b = Some L"
      "\<forall>a\<in>set L. \<forall>sz. GetSize s a = Some sz \<longrightarrow> sz < req"
    by auto
  have rest: "GetFreeOfSize_bins s bs req = Some None" using Cons by simp
  from L(1) obtain off where off: "get_bin s b = Some off"
    by (auto simp add: bin_chunks_def split: bind_splits)
  show ?case
  proof (cases "off = InvalidSize")
    case True
    then show ?thesis using off rest by simp
  next
    case False
    then have w: "bin_walk (memory_size s) s (GetChunkAbsolute off) (GetChunkAbsolute off) = Some L"
      using L(1) off by (simp add: bin_chunks_def)
    have "List.find (\<lambda>a. \<exists>sz. GetSize s a = Some sz \<and> req \<le> sz) L = None"
      using L(2) by (auto simp add: find_None_iff)
    then show ?thesis using off False rest GetFreeOfSize_list_walk[OF w, of req]
      by (simp add: Let_def)
  qed
qed

lemma GetFreeOfSize_bins_some:
  "(\<forall>b\<in>set bs. \<exists>L. bin_chunks s b = Some L) \<Longrightarrow>
   (\<exists>b\<in>set bs. \<exists>L a sz. bin_chunks s b = Some L \<and> a \<in> set L \<and>
        GetSize s a = Some sz \<and> req \<le> sz)
   \<Longrightarrow> \<exists>c. GetFreeOfSize_bins s bs req = Some (Some c)"
proof (induction bs)
  case Nil
  then show ?case by simp
next
  case (Cons b bs)
  then obtain L where L: "bin_chunks s b = Some L" by auto
  from L(1) obtain off where off: "get_bin s b = Some off"
    by (auto simp add: bin_chunks_def split: bind_splits)
  show ?case
  proof (cases "\<exists>a sz. a \<in> set L \<and> GetSize s a = Some sz \<and> req \<le> sz")
    case True
    then have ne: "L \<noteq> []" by auto
    then have inv: "off \<noteq> InvalidSize" using L off by (auto simp add: bin_chunks_def)
    then have w: "bin_walk (memory_size s) s (GetChunkAbsolute off) (GetChunkAbsolute off) = Some L"
      using L(1) off by (simp add: bin_chunks_def)
    have "List.find (\<lambda>a. \<exists>sz. GetSize s a = Some sz \<and> req \<le> sz) L \<noteq> None"
      using True by (auto simp add: find_None_iff)
    then show ?thesis using off inv GetFreeOfSize_list_walk[OF w, of req]
      by (auto simp add: Let_def)
  next
    case False
    then have ex: "\<exists>b\<in>set bs. \<exists>L a sz. bin_chunks s b = Some L \<and> a \<in> set L \<and>
        GetSize s a = Some sz \<and> req \<le> sz"
      using Cons.prems(2) L by auto
    have rest: "\<exists>c. GetFreeOfSize_bins s bs req = Some (Some c)"
      using Cons.IH ex Cons.prems(1) by simp
    show ?thesis
    proof (cases "off = InvalidSize")
      case True
      then show ?thesis using off rest by simp
    next
      case inv: False
      then have w: "bin_walk (memory_size s) s (GetChunkAbsolute off) (GetChunkAbsolute off) = Some L"
        using L(1) off by (simp add: bin_chunks_def)
      show ?thesis using off inv rest GetFreeOfSize_list_walk[OF w, of req]
        by (auto simp add: Let_def split: option.splits)
    qed
  qed
qed

lemma GetIndex_mono: "1 \<le> x \<Longrightarrow> x \<le> y \<Longrightarrow> GetIndex x \<le> GetIndex y"
  apply (simp add: GetIndex_def word_less_nat_alt word_le_nat_alt unat_div unat_sub)
  apply (intro conjI impI)
   apply (simp_all add: unat_sub word_le_nat_alt)
  done

section \<open>The handle table\<close>









section \<open>The statistics across the steps of Compact\<close>


















lemma GarbageCollector_refs:
  assumes "GarbageCollector P = Some s"
  shows "refs s = replicate 100 \<lparr>refCount = 0, rsize = 0, pointer = None\<rparr>"
  using assms by (auto simp add: GarbageCollector_def split: bind_splits)

lemma GarbageCollector_32: "case GarbageCollector 32 of None \<Rightarrow> False | Some s \<Rightarrow> True"
  by code_simp

lemma GarbageCollector_48: "case GarbageCollector 48 of None \<Rightarrow> False | Some s \<Rightarrow> True"
  by code_simp

section \<open>The claims\<close>

subsection \<open>C1: Compact and the payload of a live handle\<close>

text \<open>
  C1 says that after \<^verbatim>\<open>Compact()\<close> every live handle still resolves to its own block and
  that every byte of its payload is what it was before the call.

  The code breaks this after \<^verbatim>\<open>AllocRef(0)\<close>. The slot of that handle has \<^verbatim>\<open>size == 0\<close>, which
  is also the mark of a free slot in \<^verbatim>\<open>GetFreeRef\<close>, so the next \<^verbatim>\<open>AllocRef\<close> takes the same
  slot and the first block is left without a handle. In a pool of 48 bytes, after
  \<^verbatim>\<open>AllocRef(0)\<close> and \<^verbatim>\<open>AllocRef(8)\<close> (both return handle 0) the client writes \<open>0xAA\<close> to byte 0
  and \<open>0xBB\<close> to byte 7 of the block of 8 bytes, at pointer 20. \<^verbatim>\<open>Compact\<close> moves that block to
  pointer 4 and the block without a handle to pointer 20; reading the first word of the
  latter, which is 0, it takes it for the block of handle 0. Afterwards handle 0 resolves
  to pointer 20 again, byte 7 there is 0, and the byte \<open>0xBB\<close> sits at 4 + 7.
\<close>

theorem Compact_loses_payload_after_AllocRef_0:
  "do {
     s \<leftarrow> GarbageCollector 48;
     (h1, s) \<leftarrow> AllocRef s 0;
     (h2, s) \<leftarrow> AllocRef s 8;
     pp \<leftarrow> PointerFromRef s h2;
     p \<leftarrow> pp;
     s \<leftarrow> store8 s p 0xAA;
     s \<leftarrow> store8 s (p + 7) 0xBB;
     s \<leftarrow> Compact s;
     qq \<leftarrow> PointerFromRef s h2;
     q \<leftarrow> qq;
     b0 \<leftarrow> load8 s q;
     b7 \<leftarrow> load8 s (q + 7);
     m7 \<leftarrow> load8 s (4 + 7);
     Some (h1, h2, p, q, b0, b7, m7)
   } = Some (0, 0, 20, 20, 0xAA, 0, 0xBB)"
  by code_simp

subsection \<open>C2: Compact twice\<close>




subsection \<open>C3: no minimum request size in AllocRef\<close>





subsection \<open>C4: the state after Compact\<close>

text \<open>
  C4 gives the state after \<^verbatim>\<open>Compact()\<close> for every reachable state. In the state right after
  construction, where no chunk is used, \<^verbatim>\<open>Compact\<close> does not come back: step 4 makes chunk 0
  the \<^verbatim>\<open>freeChunk\<close>, and the loop \<^verbatim>\<open>do { cur->SetPrevUsed(true); cur = NextChunk(cur); }
  while (cur != freeChunk)\<close> then goes from chunk 0 to \<^verbatim>\<open>nullptr\<close>, which is not \<^verbatim>\<open>freeChunk\<close>,
  and dereferences it. The theorem runs the steps of \<^verbatim>\<open>Compact\<close> on a fresh pool of 32 bytes
  up to that loop, and then \<^verbatim>\<open>Compact\<close> as a whole.
\<close>

theorem Compact_fresh_pool_fails:
  "do {
     s \<leftarrow> GarbageCollector 32;
     (s1, backing) \<leftarrow> Compact_stamp [0 ..< length (refs s)] s (replicate (length (refs s)) 0);
     s2 \<leftarrow> Compact_detach (memory_size s1) s1 (GetChunkAbsolute 0);
     (s3, nextWrite, usedSize) \<leftarrow>
        Compact_slide (memory_size s2) s2 (GetChunkAbsolute 0) (GetChunkAbsolute 0) 0;
     (s4, freeChunk) \<leftarrow> Compact_tail s3 nextWrite usedSize;
     nx \<leftarrow> NextChunk s4 (Some (GetChunkAbsolute 0));
     Some (usedBlocks s, freeChunk, nx,
           map_option memory_size (Compact_mark (memory_size s4) s4 nx freeChunk),
           map_option memory_size (Compact s))
   } = Some (0, Some 0, None, None, None)"
  by code_simp

subsection \<open>C5: AllocPtr when nothing fits\<close>

text \<open>
  C5: with \<open>need = max (roundEven (n + W)) minFreeSize\<close>, \<^verbatim>\<open>AllocPtr(n)\<close> returns the null
  pointer and adds one to \<^verbatim>\<open>fails\<close> if and only if no chunk of any bin has at least \<open>need\<close>
  bytes. The code computes \<^verbatim>\<open>byteSizeRequested + sizeof(Size)\<close> in \<^verbatim>\<open>uint32_t\<close>, where it wraps
  around for \<open>n \<ge> 2 ^ 32 - 4\<close>. In a fresh pool of 48 bytes no chunk of any bin has
  4294967295 bytes, let alone 4 more; \<^verbatim>\<open>AllocPtr(4294967295)\<close> computes \<open>n + 4 = 3\<close>, rounds it
  to 4, raises it to 16, and returns the pointer 36 to a chunk of 16 bytes instead of the
  null pointer; \<^verbatim>\<open>fails\<close> stays 0.
\<close>

theorem AllocPtr_need_wraps:
  "do {
     s \<leftarrow> Allocator 48;
     (p, s1) \<leftarrow> AllocPtr s 4294967295;
     c \<leftarrow> p;
     sz \<leftarrow> GetSize s1 (c - userDeltaBytes);
     Some (no_fit s 4294967295, p, sz, fails s, fails s1)
   } = Some (True, Some 36, 16, 0, 0)"
  by code_simp

subsection \<open>C6: the size of every chunk\<close>

text \<open>
  C6 says that every chunk of every reachable state has an even size of at least 16 bytes,
  and that \<^verbatim>\<open>AllocPtr\<close> never leaves a split remainder below \<^verbatim>\<open>minFreeSize\<close>. The test for
  a split, \<^verbatim>\<open>size >= minFreeSize + bytesNeeded\<close>, is computed in \<^verbatim>\<open>uint32_t\<close> and wraps
  around. In a pool of 4294967294 bytes (the largest the data model allows),
  \<^verbatim>\<open>AllocPtr(4294967278)\<close> needs 4294967282 bytes, \<open>16 + 4294967282\<close> wraps to 2, the block is
  split, and a free chunk of 12 bytes is left at offset 0, before the used chunk at 12.
\<close>

theorem AllocPtr_split_test_wraps:
  "do {
     s \<leftarrow> Allocator 4294967294;
     (p, s1) \<leftarrow> AllocPtr s 4294967278;
     sz \<leftarrow> GetSize s1 0;
     u \<leftarrow> IsSelfUsed s1 (Some 0);
     nx \<leftarrow> NextChunk s1 (Some 0);
     Some (p, sz, u, nx)
   } = Some (Some 16, 12, False, Some 12)"
  by (simp add: exec_defs GetFreeOfSize_list_unfold Let_def upt_rec)

subsection \<open>C7: construction\<close>

text \<open>
  C7 says that construction leaves one byte of the pool outside the first chunk, whose size
  \<open>roundEven (P - 1)\<close> would be strictly less than \<open>P\<close>. For \<open>P = 32\<close> the chunk has 32
  bytes and there is no chunk after it.
\<close>

theorem Allocator_32_whole_pool:
  "do {
     s \<leftarrow> Allocator 32;
     sz \<leftarrow> GetSize s 0;
     nx \<leftarrow> NextChunk s (Some 0);
     Some (sz, memory_size s, nx)
   } = Some (32, 32, None)"
  by code_simp

text \<open>
  C7 as amended: for every even pool size \<open>P \<ge> minFreeSize + W\<close>, construction writes a
  single free chunk whose size is \<open>roundEven (P - 1) = P\<close>, the whole pool with no byte
  left over, in the bin of its size, with \<^verbatim>\<open>finalPrevIsUsed = false\<close>, \<^verbatim>\<open>freeBlocks = 1\<close>,
  \<^verbatim>\<open>usedBlocks = 0\<close>, \<^verbatim>\<open>usedMem = 0\<close> and \<^verbatim>\<open>freeMem = P\<close>.
\<close>

theorem Allocator_even_pool:
  fixes P :: "32 word"
  assumes e: "P AND 1 = 0" and g: "minFreeSize + sizeof_Size \<le> P"
  shows "\<exists>s. Allocator P = Some s \<and> GetSize s 0 = Some P \<and> RoundUp (P - 1) = P \<and>
     memory_size s = unat P \<and> NextChunk s (Some 0) = Some None \<and>
     IsSelfUsed s (Some 0) = Some False \<and> get_bin s (GetIndex P) = Some 0 \<and>
     finalPrevIsUsed s = False \<and> freeBlocks s = 1 \<and> usedBlocks s = 0 \<and>
     usedMem s = 0 \<and> freeMem s = P"
proof -
  have g': "20 \<le> P"
    using g by (simp add: minFreeSize_def sizeof_Size_def sizeof_Chunk_def RoundUp_def)
  have u: "20 \<le> unat P" using g' by (simp add: word_le_nat_alt)
  note f = even_word_facts[OF e]
  have idx: "GetIndex P < 17" using g'
    apply (simp add: GetIndex_def word_less_nat_alt word_le_nat_alt unat_div unat_sub)
    apply arith
    done
  have g4: "4 \<le> P" using g' by (simp add: word_le_nat_alt)
  show ?thesis
    using u idx f g4
    by (simp add: Allocator_def Allocator_body_def Allocator_fields_def WriteHeaderAndFooter_def
        SetSize_def SetPrevUsed_def IsPrevUsed_def GetSize_def load32_def store32_def assert_def
        NextChunk_def set_prevOffset_def set_nextOffset_def nextOffset_def prevOffset_def
        AddToFreeList_def get_bin_def set_bin_def sizeof_Size_def GetChunkAbsolute_def
        OffsetOf_def InvalidSize_def BIN_INDICES_def IsSelfUsed_def Let_def)
qed

theorem Allocator_even_pool_witness:
  "(32 :: 32 word) AND 1 = 0 \<and> minFreeSize + sizeof_Size \<le> 32 \<and>
   (\<exists>s. Allocator 32 = Some s \<and> GetSize s 0 = Some 32 \<and> memory_size s = 32 \<and>
        NextChunk s (Some 0) = Some None \<and> freeBlocks s = 1 \<and> freeMem s = 32)"
proof -
  have e: "(32 :: 32 word) AND 1 = 0" by simp
  have g: "minFreeSize + sizeof_Size \<le> 32" by (simp add: minFreeSize_16 sizeof_Size_def)
  from Allocator_even_pool[OF e g] e g show ?thesis by auto
qed

subsection \<open>C8: adjacent free chunks\<close>

text \<open>
  C8 says that no two chunks next to each other are both free in any reachable state. After
  the allocation of C6 (pool of 4294967294 bytes, \<^verbatim>\<open>AllocPtr(4294967278)\<close>, which leaves a
  free chunk of 12 bytes at offset 0), \<^verbatim>\<open>FreePtr\<close> of the block frees the chunk at offset
  12: the footer of the 12-byte chunk lies over its \<^verbatim>\<open>prevOffset\<close> field and holds 0, so
  \<^verbatim>\<open>PrevChunk\<close> finds the chunk itself and the two are never merged. The chunk at 0 and its
  successor at 12 are both free.
\<close>

theorem FreePtr_leaves_adjacent_free_chunks:
  "do {
     s \<leftarrow> Allocator 4294967294;
     (p, s1) \<leftarrow> AllocPtr s 4294967278;
     s2 \<leftarrow> FreePtr s1 p;
     u0 \<leftarrow> IsSelfUsed s2 (Some 0);
     nx \<leftarrow> NextChunk s2 (Some 0);
     u1 \<leftarrow> IsSelfUsed s2 nx;
     Some (p, u0, nx, u1)
   } = Some (Some 16, False, Some 12, False)"
  by (simp add: exec_defs GetFreeOfSize_list_unfold Let_def upt_rec)

subsection \<open>C9: where Compact writes the index of a ref\<close>

text \<open>
  C9 says that, since \<^verbatim>\<open>AllocPtr\<close> never uses a chunk of less than 16 bytes, step 1 of
  \<^verbatim>\<open>Compact\<close> writes its word inside the chunk of the handle in every reachable state. The
  defect of C1 leads to a state where it does not. In a pool of 64 bytes, \<^verbatim>\<open>AllocRef(0)\<close> and
  \<^verbatim>\<open>AllocRef(28)\<close> both return handle 0, and \<^verbatim>\<open>Compact\<close> leaves the handle, whose requested size
  is 28, with the pointer 36 of the orphaned chunk of 16 bytes, right before the free chunk
  at 48. The client writes bytes 16 and 20 of its 28 bytes, which are the \<^verbatim>\<open>nextOffset\<close> and
  \<^verbatim>\<open>prevOffset\<close> fields of the free chunk. The next \<^verbatim>\<open>AllocRef(4)\<close> unlinks that chunk and so
  writes 2 over the size word at offset 32. Handle 0 still has pointer 36, the chunk in
  front of that pointer now has size 2, and step 1 of \<^verbatim>\<open>Compact\<close> writes the four bytes at
  36.
\<close>

theorem Compact_stamp_outside_chunk:
  "do {
     s \<leftarrow> GarbageCollector 64;
     (h1, s) \<leftarrow> AllocRef s 0;
     (h2, s) \<leftarrow> AllocRef s 28;
     s \<leftarrow> Compact s;
     pp \<leftarrow> PointerFromRef s h2;
     p \<leftarrow> pp;
     s \<leftarrow> store8 s (p + 16) 24;
     s \<leftarrow> store8 s (p + 20) 2;
     (h3, s) \<leftarrow> AllocRef s 4;
     qq \<leftarrow> PointerFromRef s h2;
     q \<leftarrow> qq;
     n \<leftarrow> SizeFromRef s h2;
     sz \<leftarrow> GetSize s (q - userDeltaBytes);
     s \<leftarrow> store8 s q 0xAA;
     (s', backing) \<leftarrow> Compact_stamp [0 ..< length (refs s)] s (replicate (length (refs s)) 0);
     w \<leftarrow> load8 s' q;
     Some (h1, h2, h3, p, q, n, sz, w)
   } = Some (0, 0, 1, 36, 36, 28, 2, 0)"
  by code_simp

subsection \<open>C10: AllocRef fails only when AllocPtr does\<close>



section \<open>Further properties\<close>

subsection \<open>AllocPtr when nothing fits, in the arithmetic of the code\<close>

text \<open>
  With the size that \<^verbatim>\<open>AllocPtr\<close> itself looks for, \<open>max (RoundUp (n + sizeof_Size)) minFreeSize\<close>
  computed in \<^verbatim>\<open>uint32_t\<close>, \<^verbatim>\<open>AllocPtr(n)\<close> returns the null pointer and adds one to \<^verbatim>\<open>fails\<close>
  if and only if no chunk of any bin has at least that many bytes; it then returns normally,
  and nothing but \<^verbatim>\<open>fails\<close> changes. The states are those whose bins are well formed
  (\<open>bins_wf\<close>): each bin is empty or a circular list, and holds chunks of its own size class
  only.
\<close>

theorem AllocPtr_null_iff_no_fit:
  assumes wf: "bins_wf s"
  shows "(AllocPtr s n = Some (None, s\<lparr>fails := fails s + 1\<rparr>) \<longleftrightarrow>
            no_fit s (max (RoundUp (n + sizeof_Size)) minFreeSize)) \<and>
         (\<forall>s'. AllocPtr s n = Some (None, s') \<longrightarrow> s' = s\<lparr>fails := fails s + 1\<rparr>)"
proof -
  let ?need = "bytesNeeded_of n"
  have all: "\<forall>b<17. \<exists>L. bin_chunks s b = Some L \<and>
      (\<forall>a\<in>set L. \<exists>sz. GetSize s a = Some sz \<and> GetIndex sz = b)"
  proof (intro allI impI)
    fix b :: nat
    assume "b < 17"
    then have "b \<in> set [0 ..< BIN_INDICES]" by (simp add: BIN_INDICES_def)
    with wf have "case bin_chunks s b of None \<Rightarrow> False
        | Some L \<Rightarrow> list_all (\<lambda>a. map_option GetIndex (GetSize s a) = Some b) L"
      unfolding bins_wf_def list_all_iff by blast
    then show "\<exists>L. bin_chunks s b = Some L \<and>
        (\<forall>a\<in>set L. \<exists>sz. GetSize s a = Some sz \<and> GetIndex sz = b)"
      by (cases "bin_chunks s b") (auto simp add: list_all_iff)
  qed
  have nf: "no_fit s ?need \<longleftrightarrow> (\<forall>b<17. \<forall>L. bin_chunks s b = Some L \<longrightarrow>
      (\<forall>a\<in>set L. \<forall>sz. GetSize s a = Some sz \<longrightarrow> sz < ?need))"
  proof -
    have "no_fit s ?need \<longleftrightarrow> (\<forall>b\<in>set [0 ..< BIN_INDICES]. case bin_chunks s b of None \<Rightarrow> True
       | Some L \<Rightarrow> list_all (\<lambda>a. case GetSize s a of None \<Rightarrow> True | Some sz \<Rightarrow> sz < ?need) L)"
      unfolding no_fit_def list_all_iff by blast
    also have "\<dots> \<longleftrightarrow> (\<forall>b<17. \<forall>L. bin_chunks s b = Some L \<longrightarrow>
      (\<forall>a\<in>set L. \<forall>sz. GetSize s a = Some sz \<longrightarrow> sz < ?need))"
      by (auto simp add: BIN_INDICES_def list_all_iff split: option.splits)
    finally show ?thesis .
  qed
  have "GetFreeOfSize s ?need = Some None \<longleftrightarrow> no_fit s ?need"
  proof
    assume nofit: "no_fit s ?need"
    show "GetFreeOfSize s ?need = Some None"
      unfolding GetFreeOfSize_def BIN_INDICES_def
      apply (rule GetFreeOfSize_bins_none)
      using all nofit[unfolded nf] by (metis atLeastLessThan_iff set_upt)
  next
    assume g: "GetFreeOfSize s ?need = Some None"
    show "no_fit s ?need"
    proof (rule ccontr)
      assume "\<not> no_fit s ?need"
      then obtain b L a sz where b: "b < 17" "bin_chunks s b = Some L" "a \<in> set L"
          "GetSize s a = Some sz" "?need \<le> sz"
        unfolding nf by (metis not_le_imp_less)
      have "GetIndex sz = b" using all b by fastforce
      moreover have "GetIndex ?need \<le> GetIndex sz"
      proof -
        have "(1::32 word) \<le> 16" by simp
        then have "1 \<le> ?need" using bytesNeeded_of_ge[of n] by (rule order_trans)
        then show ?thesis using GetIndex_mono[of ?need sz] b(5) by simp
      qed
      ultimately have "b \<in> set [GetIndex ?need..<17]" using b(1) by simp
      then have "\<exists>c. GetFreeOfSize_bins s [GetIndex ?need..<17] ?need = Some (Some c)"
        using GetFreeOfSize_bins_some[of "[GetIndex ?need..<17]" s ?need] all b
        by (metis atLeastLessThan_iff set_upt)
      then show False using g by (simp add: GetFreeOfSize_def BIN_INDICES_def)
    qed
  qed
  then show ?thesis
    by (auto simp add: AllocPtr_null_iff bytesNeeded_of_def)
qed

theorem AllocPtr_null_iff_no_fit_witness:
  "bins_wf (the (Allocator 32)) \<and>
   AllocPtr (the (Allocator 32)) 100 =
     Some (None, (the (Allocator 32))\<lparr>fails := fails (the (Allocator 32)) + 1\<rparr>)"
proof -
  have wf: "bins_wf (the (Allocator 32))" by code_simp
  have nf: "no_fit (the (Allocator 32)) (max (RoundUp (100 + sizeof_Size)) minFreeSize)" by code_simp
  from AllocPtr_null_iff_no_fit[OF wf, of 100] nf wf show ?thesis by blast
qed

end
